theory Spec2Isabelle
  imports Complex_Main
begin

section \<open>Values and exceptions\<close>

text \<open>
  The program is one Python module: three pydantic records (\<open>AgentMessage\<close>,
  \<open>AgentQuery\<close>, \<open>AgentResponse\<close>) and the class \<open>ClaudeAgent\<close> with its constructor
  and its method \<open>ask\<close>.

  \<open>ask\<close> stores the values of a caller-supplied dict into the query object with
  \<open>setattr\<close>, so the fields of a query can hold any Python value. The values that occur are
  modelled by \<open>pyval\<close>: the JSON-like values, tuples, and \<open>AgentMessage\<close> objects.
  A Python float is modelled by the real number it denotes (the comparisons with 0 and 1
  made by the field constraint are exact on floats); NaN is not a value of the model.
\<close>

record AgentMessage =
  role :: string
  content :: string

datatype pyval =
    PNone
  | PBool bool
  | PInt int
  | PFloat real
  | PStr string
  | PList "pyval list"
  | PTuple "pyval list"
  | PDict "(string \<times> pyval) list"
  | PMessage AgentMessage

text \<open>
  A dict is an association list in insertion order, which is the order \<open>items()\<close> yields.
  The keys of a dict are distinct; the properties of override mappings state it as
  \<open>distinct (map fst ps)\<close>.
\<close>

type_synonym pydict = "(string \<times> pyval) list"

fun type_name :: "pyval \<Rightarrow> string" where
  "type_name PNone = ''NoneType''"
| "type_name (PBool _) = ''bool''"
| "type_name (PInt _) = ''int''"
| "type_name (PFloat _) = ''float''"
| "type_name (PStr _) = ''str''"
| "type_name (PList _) = ''list''"
| "type_name (PTuple _) = ''tuple''"
| "type_name (PDict _) = ''dict''"
| "type_name (PMessage _) = ''AgentMessage''"

text \<open>
  What can be raised. \<open>py_exception\<close> stands for the instances of Python's class
  \<open>Exception\<close>, which is what the handler \<open>except Exception\<close> of \<open>ask\<close> catches.
  A \<open>ValidationError\<close> names the record and lists the offending fields; \<open>RemoteError\<close>
  is any other exception, given by its class name and by what \<open>str\<close> returns for it.
\<close>

datatype violation = Missing | NotGreaterEqual | NotLessEqual

datatype py_exception =
    ValidationError string "(string \<times> violation) list"
  | ValueError string
  | TypeError string
  | AttributeError string
  | IndexError string
  | RemoteError string string

fun violation_text :: "violation \<Rightarrow> string" where
  "violation_text Missing = ''Field required''"
| "violation_text NotGreaterEqual = ''Input should be greater than or equal to 0''"
| "violation_text NotLessEqual = ''Input should be less than or equal to 1''"

text \<open>
  \<open>str_exc e\<close> is Python's \<open>str(e)\<close>. For the built-in exceptions it is the message. The
  wording of a pydantic \<open>ValidationError\<close> belongs to the library; the rendering below
  keeps the record name, the fields and the kind of each violation.
\<close>

fun str_exc :: "py_exception \<Rightarrow> string" where
  "str_exc (ValidationError m errs) =
     ''validation error for '' @ m @
       concat (map (\<lambda>(f, v). [CHR 0x0A] @ f @ '': '' @ violation_text v) errs)"
| "str_exc (ValueError msg) = msg"
| "str_exc (TypeError msg) = msg"
| "str_exc (AttributeError msg) = msg"
| "str_exc (IndexError msg) = msg"
| "str_exc (RemoteError cls msg) = msg"

definition quoted :: "string \<Rightarrow> string" where
  "quoted s = [CHR 0x27] @ s @ [CHR 0x27]"

definition dquoted :: "string \<Rightarrow> string" where
  "dquoted s = [CHR 0x22] @ s @ [CHR 0x22]"

definition not_iterable :: "pyval \<Rightarrow> py_exception" where
  "not_iterable v = TypeError (quoted (type_name v) @ '' object is not iterable'')"

definition no_attribute :: "string \<Rightarrow> string \<Rightarrow> py_exception" where
  "no_attribute cls a = AttributeError (quoted cls @ '' object has no attribute '' @ quoted a)"

section \<open>The schema records\<close>

text \<open>
  A constructor argument is \<open>None\<close> when the keyword is omitted and \<open>Some v\<close> when it is
  given; arguments are taken at their declared types. A field declared with \<open>Field(...)\<close>
  is required. \<open>AgentMessage\<close> declares \<open>role: str\<close> and \<open>content: str\<close> with no further
  constraint.
\<close>

definition AgentMessage_new :: "string option \<Rightarrow> string option \<Rightarrow> py_exception + AgentMessage" where
  "AgentMessage_new r c =
     (case (r, c) of
        (Some r', Some c') \<Rightarrow> Inr \<lparr>role = r', content = c'\<rparr>
      | _ \<Rightarrow> Inl (ValidationError ''AgentMessage''
                 ((case r of None \<Rightarrow> [(''role'', Missing)] | Some _ \<Rightarrow> []) @
                  (case c of None \<Rightarrow> [(''content'', Missing)] | Some _ \<Rightarrow> []))))"

text \<open>
  \<open>AgentQuery\<close>: every field has a default; only \<open>temperature\<close> carries a constraint
  (\<open>ge=0, le=1\<close>), which is checked on a supplied value. The fields of the object are
  \<open>pyval\<close>s because \<open>setattr\<close> can later store anything in them.
\<close>

record AgentQuery =
  messages :: pyval
  model :: pyval
  max_tokens :: pyval
  temperature :: pyval

definition default_model :: string where
  "default_model = ''claude-3-7-sonnet-20250219''"

definition default_max_tokens :: int where
  "default_max_tokens = 1000"

definition default_temperature :: real where
  "default_temperature = 0.7"

definition validate_temperature :: "real \<Rightarrow> py_exception + real" where
  "validate_temperature t =
     (if \<not> 0 \<le> t then Inl (ValidationError ''AgentQuery'' [(''temperature'', NotGreaterEqual)])
      else if \<not> t \<le> 1 then Inl (ValidationError ''AgentQuery'' [(''temperature'', NotLessEqual)])
      else Inr t)"

definition AgentQuery_new ::
  "AgentMessage list option \<Rightarrow> string option \<Rightarrow> int option \<Rightarrow> real option
     \<Rightarrow> py_exception + AgentQuery" where
  "AgentQuery_new ms md mt t =
     (case (case t of None \<Rightarrow> Inr default_temperature | Some t' \<Rightarrow> validate_temperature t') of
        Inl e \<Rightarrow> Inl e
      | Inr t' \<Rightarrow> Inr \<lparr>messages = PList (map PMessage (case ms of None \<Rightarrow> [] | Some l \<Rightarrow> l)),
                       model = PStr (case md of None \<Rightarrow> default_model | Some s \<Rightarrow> s),
                       max_tokens = PInt (case mt of None \<Rightarrow> default_max_tokens | Some n \<Rightarrow> n),
                       temperature = PFloat t'\<rparr>)"

text \<open>\<open>AgentResponse\<close>: \<open>answer\<close> is required, \<open>raw_response\<close> is an optional dict.\<close>

record AgentResponse =
  answer :: string
  raw_response :: "pydict option"

definition AgentResponse_new :: "string option \<Rightarrow> pydict option \<Rightarrow> py_exception + AgentResponse" where
  "AgentResponse_new a raw =
     (case a of
        None \<Rightarrow> Inl (ValidationError ''AgentResponse'' [(''answer'', Missing)])
      | Some a' \<Rightarrow> Inr \<lparr>answer = a', raw_response = raw\<rparr>)"

section \<open>The agent wrapper\<close>

text \<open>
  The handle built by \<open>anthropic.Anthropic(api_key=...)\<close> and the wrapper object holding
  the credential and the handle.
\<close>

record Anthropic =
  client_api_key :: string

record ClaudeAgent =
  api_key :: string
  client :: Anthropic

text \<open>
  The keyword arguments of \<open>messages.create\<close>. Each message of the wire list is the dict
  \<open>{"role": m.role, "content": m.content}\<close>.
\<close>

record request =
  req_model :: pyval
  req_max_tokens :: pyval
  req_temperature :: pyval
  req_messages :: "pydict list"

text \<open>
  The reply of the service: its content blocks and what \<open>model_dump()\<close> returns for it.
  Only a text block has the attribute \<open>text\<close>; any other block is given by its class name.
\<close>

datatype content_block = TextBlock string | NonTextBlock string

record reply =
  reply_content :: "content_block list"
  reply_dump :: pydict

text \<open>
  The remote operation \<open>client.messages.create\<close> is not part of the program: it is a
  parameter, a function from the handle and the request to a raised exception or a reply.
\<close>

type_synonym remote = "Anthropic \<Rightarrow> request \<Rightarrow> py_exception + reply"

subsection \<open>Construction\<close>

text \<open>
  Python's truth value of an optional string (\<open>None\<close> and the empty string are false) and
  the operator \<open>or\<close>, which returns its first operand when that is true and its second
  operand otherwise.
\<close>

fun truthy :: "string option \<Rightarrow> bool" where
  "truthy None = False"
| "truthy (Some s) = (s \<noteq> [])"

definition py_or :: "string option \<Rightarrow> string option \<Rightarrow> string option" where
  "py_or a b = (if truthy a then a else b)"

definition missing_key_message :: string where
  "missing_key_message =
     ''ANTHROPIC_API_KEY must be provided either as an argument or as an environment variable''"

text \<open>
  \<open>__init__\<close>. \<open>environ\<close> is \<open>os.environ.get\<close>. The second component of the result lists
  the remote requests issued, in order; building the handle issues none.
\<close>

definition ClaudeAgent_init ::
  "string option \<Rightarrow> (string \<Rightarrow> string option) \<Rightarrow> (py_exception + ClaudeAgent) \<times> request list" where
  "ClaudeAgent_init key environ =
     (case py_or key (environ ''ANTHROPIC_API_KEY'') of
        None \<Rightarrow> (Inl (ValueError missing_key_message), [])
      | Some k \<Rightarrow>
          if \<not> truthy (Some k) then (Inl (ValueError missing_key_message), [])
          else (Inr \<lparr>api_key = k, client = \<lparr>client_api_key = k\<rparr>\<rparr>, []))"

subsection \<open>Overrides: hasattr and setattr on the query\<close>

text \<open>
  \<open>hasattr(query, key)\<close> holds for the four declared fields and for whatever other
  attributes the base class of the records gives its objects (methods, dunder names).
  That class is not part of the program, so those names and what \<open>setattr\<close> does for them
  are parameters. On a declared field \<open>setattr\<close> stores the value as it is: the records
  do not ask for validation on assignment.
\<close>

record attr_env =
  hasattr_other :: "string \<Rightarrow> bool"
  setattr_other :: "string \<Rightarrow> pyval \<Rightarrow> AgentQuery \<Rightarrow> py_exception + AgentQuery"

definition field_names :: "string list" where
  "field_names = [''messages'', ''model'', ''max_tokens'', ''temperature'']"

definition hasattr_query :: "attr_env \<Rightarrow> string \<Rightarrow> bool" where
  "hasattr_query env k = (k \<in> set field_names \<or> hasattr_other env k)"

definition setattr_query :: "attr_env \<Rightarrow> AgentQuery \<Rightarrow> string \<Rightarrow> pyval \<Rightarrow> py_exception + AgentQuery" where
  "setattr_query env q k v =
     (if k = ''messages'' then Inr (q\<lparr>messages := v\<rparr>)
      else if k = ''model'' then Inr (q\<lparr>model := v\<rparr>)
      else if k = ''max_tokens'' then Inr (q\<lparr>max_tokens := v\<rparr>)
      else if k = ''temperature'' then Inr (q\<lparr>temperature := v\<rparr>)
      else setattr_other env k v q)"

text \<open>The loop over \<open>query_params.items()\<close>; an exception of \<open>setattr\<close> ends it.\<close>

fun apply_overrides :: "attr_env \<Rightarrow> AgentQuery \<Rightarrow> pydict \<Rightarrow> py_exception + AgentQuery" where
  "apply_overrides env q [] = Inr q"
| "apply_overrides env q ((k, v) # ps) =
     (if hasattr_query env k
      then (case setattr_query env q k v of
              Inl e \<Rightarrow> Inl e
            | Inr q' \<Rightarrow> apply_overrides env q' ps)
      else apply_overrides env q ps)"

subsection \<open>The request\<close>

text \<open>
  The comprehension \<open>[{"role": m.role, "content": m.content} for m in query.messages]\<close>
  iterates over whatever value the field holds. Lists and tuples yield their elements, a
  string its characters, a dict its keys, a record object its (name, value) pairs; the
  other values are not iterable. Only an \<open>AgentMessage\<close> has the attribute \<open>role\<close>.
\<close>

fun iterate :: "pyval \<Rightarrow> py_exception + pyval list" where
  "iterate (PList xs) = Inr xs"
| "iterate (PTuple xs) = Inr xs"
| "iterate (PStr s) = Inr (map (\<lambda>c. PStr [c]) s)"
| "iterate (PDict kvs) = Inr (map (\<lambda>(k, v). PStr k) kvs)"
| "iterate (PMessage m) =
     Inr [PTuple [PStr ''role'', PStr (role m)], PTuple [PStr ''content'', PStr (content m)]]"
| "iterate PNone = Inl (not_iterable PNone)"
| "iterate (PBool b) = Inl (not_iterable (PBool b))"
| "iterate (PInt i) = Inl (not_iterable (PInt i))"
| "iterate (PFloat r) = Inl (not_iterable (PFloat r))"

definition wire_dict :: "AgentMessage \<Rightarrow> pydict" where
  "wire_dict m = [(''role'', PStr (role m)), (''content'', PStr (content m))]"

fun wire_of :: "pyval \<Rightarrow> py_exception + pydict" where
  "wire_of (PMessage m) = Inr (wire_dict m)"
| "wire_of v = Inl (no_attribute (type_name v) ''role'')"

fun wire_list :: "pyval list \<Rightarrow> py_exception + pydict list" where
  "wire_list [] = Inr []"
| "wire_list (v # vs) =
     (case wire_of v of
        Inl e \<Rightarrow> Inl e
      | Inr w \<Rightarrow> (case wire_list vs of Inl e \<Rightarrow> Inl e | Inr ws \<Rightarrow> Inr (w # ws)))"

definition wire_messages :: "pyval \<Rightarrow> py_exception + pydict list" where
  "wire_messages v = (case iterate v of Inl e \<Rightarrow> Inl e | Inr xs \<Rightarrow> wire_list xs)"

text \<open>\<open>response.content[0].text\<close>.\<close>

definition first_text :: "reply \<Rightarrow> py_exception + string" where
  "first_text r =
     (case reply_content r of
        [] \<Rightarrow> Inl (IndexError ''list index out of range'')
      | TextBlock t # _ \<Rightarrow> Inr t
      | NonTextBlock cls # _ \<Rightarrow> Inl (no_attribute cls ''text''))"

subsection \<open>ask\<close>

text \<open>
  The body of the \<open>try\<close> block: the arguments of the call are evaluated (the comprehension
  last), then the call is made, then the answer is extracted and the response record
  built. The result is the value returned or the exception raised inside the block,
  together with the requests issued.
\<close>

definition try_body :: "remote \<Rightarrow> Anthropic \<Rightarrow> AgentQuery \<Rightarrow> (py_exception + AgentResponse) \<times> request list" where
  "try_body create c q =
     (case wire_messages (messages q) of
        Inl e \<Rightarrow> (Inl e, [])
      | Inr ws \<Rightarrow>
          (let req = \<lparr>req_model = model q, req_max_tokens = max_tokens q,
                      req_temperature = temperature q, req_messages = ws\<rparr>
           in case create c req of
                Inl e \<Rightarrow> (Inl e, [req])
              | Inr r \<Rightarrow>
                  (case first_text r of
                     Inl e \<Rightarrow> (Inl e, [req])
                   | Inr a \<Rightarrow> (AgentResponse_new (Some a) (Some (reply_dump r)), [req]))))"

text \<open>The handler \<open>except Exception as e\<close>.\<close>

definition error_response :: "py_exception \<Rightarrow> py_exception + AgentResponse" where
  "error_response e =
     AgentResponse_new (Some (''Error: '' @ str_exc e)) (Some [(''error'', PStr (str_exc e))])"

text \<open>
  What a call of \<open>ask\<close> leaves behind: the response returned or the exception that left
  the method, the wrapper object after the call, and the remote requests issued.
\<close>

record outcome =
  result :: "py_exception + AgentResponse"
  agent_after :: ClaudeAgent
  calls :: "request list"

definition initial_query :: "string \<Rightarrow> py_exception + AgentQuery" where
  "initial_query question =
     (case AgentMessage_new (Some ''user'') (Some question) of
        Inl e \<Rightarrow> Inl e
      | Inr m \<Rightarrow> AgentQuery_new (Some [m]) None None None)"

definition ask ::
  "attr_env \<Rightarrow> remote \<Rightarrow> ClaudeAgent \<Rightarrow> string \<Rightarrow> pydict option \<Rightarrow> outcome" where
  "ask env create self question query_params =
     (case initial_query question of
        Inl e \<Rightarrow> \<lparr>result = Inl e, agent_after = self, calls = []\<rparr>
      | Inr query \<Rightarrow>
          (case (case query_params of
                   None \<Rightarrow> Inr query
                 | Some ps \<Rightarrow> if ps = [] then Inr query else apply_overrides env query ps) of
             Inl e \<Rightarrow> \<lparr>result = Inl e, agent_after = self, calls = []\<rparr>
           | Inr q \<Rightarrow>
               (case try_body create (client self) q of
                  (Inr resp, cs) \<Rightarrow> \<lparr>result = Inr resp, agent_after = self, calls = cs\<rparr>
                | (Inl e, cs) \<Rightarrow> \<lparr>result = error_response e, agent_after = self, calls = cs\<rparr>)))"

subsection \<open>Requests and overrides named in the properties\<close>

text \<open>
  The request that carries the declared defaults and the question as its only message,
  a user message.
\<close>

definition default_request :: "string \<Rightarrow> request" where
  "default_request question =
     \<lparr>req_model = PStr default_model, req_max_tokens = PInt default_max_tokens,
      req_temperature = PFloat default_temperature,
      req_messages = [wire_dict \<lparr>role = ''user'', content = question\<rparr>]\<rparr>"

text \<open>
  \<open>accepted_value k v\<close>: \<open>v\<close> is a value that the declaration of the field \<open>k\<close> of
  \<open>AgentQuery\<close> admits as it is: a list of \<open>AgentMessage\<close> objects, a string, an integer, a
  float within the bounds \<open>ge=0, le=1\<close>.
\<close>

fun is_message :: "pyval \<Rightarrow> bool" where
  "is_message (PMessage _) = True"
| "is_message _ = False"

definition accepted_value :: "string \<Rightarrow> pyval \<Rightarrow> bool" where
  "accepted_value k v =
     (if k = ''messages'' then (case v of PList xs \<Rightarrow> list_all is_message xs | _ \<Rightarrow> False)
      else if k = ''model'' then (case v of PStr _ \<Rightarrow> True | _ \<Rightarrow> False)
      else if k = ''max_tokens'' then (case v of PInt _ \<Rightarrow> True | _ \<Rightarrow> False)
      else if k = ''temperature'' then (case v of PFloat t \<Rightarrow> 0 \<le> t \<and> t \<le> 1 | _ \<Rightarrow> False)
      else False)"

text \<open>
  The value a field has after the overrides of a dict with distinct keys: the value bound
  to the field's name when the name is a key, and the value \<open>d\<close> it had otherwise.
\<close>

definition overridden :: "pydict \<Rightarrow> string \<Rightarrow> pyval \<Rightarrow> pyval" where
  "overridden ps k d = (case map_of ps k of None \<Rightarrow> d | Some v \<Rightarrow> v)"

text \<open>
  A key is a field key when, if the query object has it as an attribute at all, it is one
  of the declared fields. An override entry is well formed when its key is either absent
  from the query object or a declared field bound to an accepted value.
\<close>

definition field_key :: "attr_env \<Rightarrow> string \<times> pyval \<Rightarrow> bool" where
  "field_key env kv = (if hasattr_query env (fst kv) then fst kv \<in> set field_names else True)"

definition well_formed_entry :: "attr_env \<Rightarrow> string \<times> pyval \<Rightarrow> bool" where
  "well_formed_entry env kv =
     (if hasattr_query env (fst kv)
      then fst kv \<in> set field_names \<and> accepted_value (fst kv) (snd kv)
      else True)"

subsection \<open>Test doubles\<close>

text \<open>
  A remote that answers every request with one text block, a remote whose every call
  fails, an attribute environment in which the query object has a method \<open>copy\<close> whose
  assignment is refused with the error raised for a name that is not a field, and a
  wrapper object.
\<close>

definition mock_reply :: "string \<Rightarrow> remote" where
  "mock_reply t c req =
     Inr \<lparr>reply_content = [TextBlock t],
          reply_dump = [(''content'', PList [PDict [(''text'', PStr t)]])]\<rparr>"

definition mock_failure :: remote where
  "mock_failure c req = Inl (RemoteError ''APIConnectionError'' ''Connection error.'')"

definition mock_env :: attr_env where
  "mock_env =
     \<lparr>hasattr_other = (\<lambda>k. k = ''copy''),
      setattr_other =
        (\<lambda>k v q. Inl (ValueError (dquoted ''AgentQuery'' @ '' object has no field '' @ dquoted k)))\<rparr>"

definition mock_agent :: ClaudeAgent where
  "mock_agent = \<lparr>api_key = ''sk-test'', client = \<lparr>client_api_key = ''sk-test''\<rparr>\<rparr>"

section \<open>Auxiliary facts\<close>

lemma initial_query_eq:
  "initial_query question =
     Inr \<lparr>messages = PList [PMessage \<lparr>role = ''user'', content = question\<rparr>],
          model = PStr default_model, max_tokens = PInt default_max_tokens,
          temperature = PFloat default_temperature\<rparr>"
  by (simp add: initial_query_def AgentMessage_new_def AgentQuery_new_def)

lemma try_body_initial:
  "try_body create c
     \<lparr>messages = PList [PMessage \<lparr>role = ''user'', content = question\<rparr>],
      model = PStr default_model, max_tokens = PInt default_max_tokens,
      temperature = PFloat default_temperature\<rparr> =
   (case create c (default_request question) of
      Inl e \<Rightarrow> (Inl e, [default_request question])
    | Inr r \<Rightarrow>
        (case first_text r of
           Inl e \<Rightarrow> (Inl e, [default_request question])
         | Inr a \<Rightarrow> (AgentResponse_new (Some a) (Some (reply_dump r)), [default_request question])))"
  by (simp add: try_body_def wire_messages_def default_request_def Let_def split: sum.splits)

lemma wire_list_messages: "wire_list (map PMessage ms) = Inr (map wire_dict ms)"
  by (induction ms) simp_all

lemma is_message_list: "list_all is_message xs \<Longrightarrow> \<exists>ms. xs = map PMessage ms"
proof (induction xs)
  case Nil
  then show ?case by simp
next
  case (Cons x xs)
  then obtain ms where "xs = map PMessage ms" by auto
  moreover from Cons.prems obtain m where "x = PMessage m" by (cases x) auto
  ultimately have "x # xs = map PMessage (m # ms)" by simp
  then show ?case by (rule exI [of _ "m # ms"])
qed

lemma apply_overrides_filter:
  "apply_overrides env q ps = apply_overrides env q (filter (\<lambda>kv. hasattr_query env (fst kv)) ps)"
  by (induction ps arbitrary: q) (auto split: sum.splits)

lemma apply_overrides_fields:
  "distinct (map fst ps) \<Longrightarrow> list_all (field_key env) ps \<Longrightarrow>
   apply_overrides env q ps =
     Inr \<lparr>messages = overridden ps ''messages'' (messages q),
          model = overridden ps ''model'' (model q),
          max_tokens = overridden ps ''max_tokens'' (max_tokens q),
          temperature = overridden ps ''temperature'' (temperature q)\<rparr>"
proof (induction ps arbitrary: q)
  case Nil
  then show ?case by (simp add: overridden_def)
next
  case (Cons kv ps)
  obtain k v where kv: "kv = (k, v)" by (cases kv)
  from Cons.prems have d: "distinct (map fst ps)" and fk: "list_all (field_key env) ps"
    and nk: "map_of ps k = None"
    by (auto simp: kv map_of_eq_None_iff)
  show ?case
  proof (cases "hasattr_query env k")
    case False
    then have nf: "k \<notin> set field_names" by (simp add: hasattr_query_def)
    from False have "apply_overrides env q (kv # ps) = apply_overrides env q ps"
      by (simp add: kv)
    with Cons.IH [OF d fk, of q] nf show ?thesis
      by (auto simp: kv field_names_def overridden_def)
  next
    case True
    with Cons.prems have f: "k \<in> set field_names" by (simp add: kv field_key_def)
    then consider "k = ''messages''" | "k = ''model''" | "k = ''max_tokens''" | "k = ''temperature''"
      by (auto simp: field_names_def)
    then show ?thesis
    proof cases
      case 1
      with True nk Cons.IH [OF d fk, of "q\<lparr>messages := v\<rparr>"] show ?thesis
        by (auto simp: kv setattr_query_def overridden_def)
    next
      case 2
      with True nk Cons.IH [OF d fk, of "q\<lparr>model := v\<rparr>"] show ?thesis
        by (auto simp: kv setattr_query_def overridden_def)
    next
      case 3
      with True nk Cons.IH [OF d fk, of "q\<lparr>max_tokens := v\<rparr>"] show ?thesis
        by (auto simp: kv setattr_query_def overridden_def)
    next
      case 4
      with True nk Cons.IH [OF d fk, of "q\<lparr>temperature := v\<rparr>"] show ?thesis
        by (auto simp: kv setattr_query_def overridden_def)
    qed
  qed
qed

lemma ask_Some:
  "ask env create self question (Some ps) =
     (case apply_overrides env
        \<lparr>messages = PList [PMessage \<lparr>role = ''user'', content = question\<rparr>],
         model = PStr default_model, max_tokens = PInt default_max_tokens,
         temperature = PFloat default_temperature\<rparr> ps of
        Inl e \<Rightarrow> \<lparr>result = Inl e, agent_after = self, calls = []\<rparr>
      | Inr q \<Rightarrow>
          (case try_body create (client self) q of
             (Inr resp, cs) \<Rightarrow> \<lparr>result = Inr resp, agent_after = self, calls = cs\<rparr>
           | (Inl e, cs) \<Rightarrow> \<lparr>result = error_response e, agent_after = self, calls = cs\<rparr>))"
  by (cases ps) (simp_all add: ask_def initial_query_eq)

lemma ask_None:
  "ask env create self question None = ask env create self question (Some [])"
  by (simp add: ask_def split: sum.splits)

lemma try_body_calls:
  "wire_messages (messages q) = Inr ws \<Longrightarrow>
   snd (try_body create c q) =
     [\<lparr>req_model = model q, req_max_tokens = max_tokens q,
       req_temperature = temperature q, req_messages = ws\<rparr>]"
  by (simp add: try_body_def Let_def split: sum.splits)

lemma try_body_no_call:
  "wire_messages (messages q) = Inl e \<Longrightarrow> snd (try_body create c q) = []"
  by (simp add: try_body_def)

lemma try_body_response:
  "\<exists>resp. (case try_body create c q of
             (Inr resp, cs) \<Rightarrow> Inr resp
           | (Inl e, cs) \<Rightarrow> error_response e) = Inr resp"
  by (simp add: try_body_def Let_def error_response_def AgentResponse_new_def
      split: sum.splits prod.splits)

lemma ask_after_overrides:
  assumes "apply_overrides env
        \<lparr>messages = PList [PMessage \<lparr>role = ''user'', content = question\<rparr>],
         model = PStr default_model, max_tokens = PInt default_max_tokens,
         temperature = PFloat default_temperature\<rparr> ps = Inr q"
  shows "calls (ask env create self question (Some ps)) = snd (try_body create (client self) q)"
    and "\<exists>resp. result (ask env create self question (Some ps)) = Inr resp"
proof -
  show "calls (ask env create self question (Some ps)) = snd (try_body create (client self) q)"
    by (simp add: ask_Some assms split: sum.splits prod.splits)
  from try_body_response [of create "client self" q]
  show "\<exists>resp. result (ask env create self question (Some ps)) = Inr resp"
    by (auto simp: ask_Some assms split: sum.splits prod.splits)
qed

lemma well_formed_field_key:
  "list_all (well_formed_entry env) ps \<Longrightarrow> list_all (field_key env) ps"
  by (induction ps) (auto simp: well_formed_entry_def field_key_def)

lemma well_formed_messages:
  assumes "list_all (well_formed_entry env) ps" and "map_of ps ''messages'' = Some v"
  shows "\<exists>ms. v = PList (map PMessage ms)"
proof -
  from assms(2) have "(''messages'', v) \<in> set ps" by (rule map_of_SomeD)
  with assms(1) have "well_formed_entry env (''messages'', v)"
    by (simp add: list_all_iff)
  then have "accepted_value ''messages'' v"
    by (simp add: well_formed_entry_def hasattr_query_def field_names_def)
  then obtain xs where "v = PList xs" and "list_all is_message xs"
    by (cases v) (simp_all add: accepted_value_def)
  with is_message_list [of xs] show ?thesis by auto
qed

section \<open>The schema records: properties\<close>

text \<open>
  C2. For every temperature outside the closed interval [0,1] the construction of an
  \<open>AgentQuery\<close> fails with a ValidationError, and for every temperature inside the
  interval, bounds included, it succeeds (whatever the other arguments are) and stores the
  value.
\<close>

theorem AgentQuery_temperature_range:
  "(t < 0 \<or> 1 < t \<longrightarrow>
      (\<exists>errs. AgentQuery_new ms md mt (Some t) = Inl (ValidationError ''AgentQuery'' errs))) \<and>
   (0 \<le> t \<and> t \<le> 1 \<longrightarrow>
      (\<exists>q. AgentQuery_new ms md mt (Some t) = Inr q \<and> temperature q = PFloat t))"
  by (auto simp: AgentQuery_new_def validate_temperature_def)

theorem AgentQuery_temperature_range_witness:
  "(\<exists>errs. AgentQuery_new None None None (Some 2) = Inl (ValidationError ''AgentQuery'' errs)) \<and>
   (\<exists>errs. AgentQuery_new None None None (Some (- 1 / 10)) = Inl (ValidationError ''AgentQuery'' errs)) \<and>
   (\<exists>q. AgentQuery_new None None None (Some 0) = Inr q \<and> temperature q = PFloat 0) \<and>
   (\<exists>q. AgentQuery_new None None None (Some 1) = Inr q \<and> temperature q = PFloat 1)"
  using AgentQuery_temperature_range [of 2 None None None]
    AgentQuery_temperature_range [of "- 1 / 10" None None None]
    AgentQuery_temperature_range [of 0 None None None]
    AgentQuery_temperature_range [of 1 None None None]
  by simp

text \<open>
  C4 (as stated, refuted). The claim is that a \<open>max_tokens\<close> of zero or below makes the
  construction of an \<open>AgentQuery\<close> fail. The field is declared \<open>int\<close> with a default and
  no bound: zero and a negative number are stored.
\<close>

theorem AgentQuery_max_tokens_counterexample:
  "AgentQuery_new None None (Some 0) None =
     Inr \<lparr>messages = PList [], model = PStr default_model, max_tokens = PInt 0,
          temperature = PFloat default_temperature\<rparr> \<and>
   AgentQuery_new None None (Some (- 5)) None =
     Inr \<lparr>messages = PList [], model = PStr default_model, max_tokens = PInt (- 5),
          temperature = PFloat default_temperature\<rparr>"
  by (simp add: AgentQuery_new_def)

text \<open>
  C4 (amended). For every integer \<open>max_tokens\<close>, positive or not, the construction of an
  \<open>AgentQuery\<close> whose temperature is omitted or within [0,1] succeeds and stores the
  integer unchanged.
\<close>

theorem AgentQuery_max_tokens_unconstrained:
  "(case t of None \<Rightarrow> True | Some t' \<Rightarrow> 0 \<le> t' \<and> t' \<le> 1) \<Longrightarrow>
   \<exists>q. AgentQuery_new ms md (Some n) t = Inr q \<and> max_tokens q = PInt n"
  by (auto simp: AgentQuery_new_def validate_temperature_def split: option.splits)

theorem AgentQuery_max_tokens_unconstrained_witness:
  "\<exists>q. AgentQuery_new None None (Some (- 3)) (Some (1 / 2)) = Inr q \<and> max_tokens q = PInt (- 3)"
  using AgentQuery_max_tokens_unconstrained [of "Some (1 / 2)" None None "- 3"] by simp

text \<open>
  C5 (as stated, refuted). The claim is that a role outside "user" and "assistant" makes
  the construction of an \<open>AgentMessage\<close> fail. The field is declared \<open>str\<close>: the role
  "system" is stored, here with an empty content.
\<close>

theorem AgentMessage_role_counterexample:
  "AgentMessage_new (Some ''system'') (Some '''') = Inr \<lparr>role = ''system'', content = ''''\<rparr>"
  by (simp add: AgentMessage_new_def)

text \<open>
  C5 (amended). The construction of an \<open>AgentMessage\<close> fails with a ValidationError
  exactly when \<open>role\<close> or \<open>content\<close> is absent; for every role string, in
  {"user", "assistant"} or not, and every content string, empty or not, it succeeds and
  the stored fields are the inputs.
\<close>

theorem AgentMessage_new_required_fields:
  "((\<exists>errs. AgentMessage_new r c = Inl (ValidationError ''AgentMessage'' errs)) \<longleftrightarrow>
      (r = None \<or> c = None)) \<and>
   ((\<exists>m. AgentMessage_new r c = Inr m) \<longleftrightarrow> (r \<noteq> None \<and> c \<noteq> None)) \<and>
   AgentMessage_new (Some r') (Some c') = Inr \<lparr>role = r', content = c'\<rparr>"
  by (auto simp: AgentMessage_new_def split: option.splits)

theorem AgentMessage_new_required_fields_witness:
  "AgentMessage_new (Some ''user'') (Some '''') = Inr \<lparr>role = ''user'', content = ''''\<rparr> \<and>
   (\<exists>errs. AgentMessage_new None (Some ''hello'') = Inl (ValidationError ''AgentMessage'' errs)) \<and>
   (\<exists>errs. AgentMessage_new (Some ''assistant'') None = Inl (ValidationError ''AgentMessage'' errs))"
  using AgentMessage_new_required_fields [of "Some ''user''" "Some ''''" "''user''" "''''"]
    AgentMessage_new_required_fields [of None "Some ''hello''"]
    AgentMessage_new_required_fields [of "Some ''assistant''" None]
  by simp

section \<open>The wrapper: properties\<close>

text \<open>
  C6. The construction of a \<open>ClaudeAgent\<close> fails, with the configuration error, exactly
  when neither the argument nor the environment variable ANTHROPIC_API_KEY gives a
  non-empty string. A non-empty argument is the credential whatever the environment
  holds; otherwise a non-empty value of the variable is. No remote request is issued.
\<close>

theorem ClaudeAgent_init_credential:
  "(k \<noteq> [] \<longrightarrow>
      ClaudeAgent_init (Some k) environ =
        (Inr \<lparr>api_key = k, client = \<lparr>client_api_key = k\<rparr>\<rparr>, [])) \<and>
   (\<not> truthy key \<and> environ ''ANTHROPIC_API_KEY'' = Some k \<and> k \<noteq> [] \<longrightarrow>
      ClaudeAgent_init key environ =
        (Inr \<lparr>api_key = k, client = \<lparr>client_api_key = k\<rparr>\<rparr>, [])) \<and>
   (\<not> truthy key \<and> \<not> truthy (environ ''ANTHROPIC_API_KEY'') \<longrightarrow>
      ClaudeAgent_init key environ = (Inl (ValueError missing_key_message), [])) \<and>
   ((\<exists>e. fst (ClaudeAgent_init key environ) = Inl e) \<longleftrightarrow>
      (\<not> truthy key \<and> \<not> truthy (environ ''ANTHROPIC_API_KEY''))) \<and>
   snd (ClaudeAgent_init key environ) = []"
  by (cases key; cases "environ ''ANTHROPIC_API_KEY''")
     (auto simp: ClaudeAgent_init_def py_or_def)

theorem ClaudeAgent_init_credential_witness:
  "ClaudeAgent_init (Some ''sk-arg'') (\<lambda>n. Some ''sk-env'') =
     (Inr \<lparr>api_key = ''sk-arg'', client = \<lparr>client_api_key = ''sk-arg''\<rparr>\<rparr>, []) \<and>
   ClaudeAgent_init None (\<lambda>n. if n = ''ANTHROPIC_API_KEY'' then Some ''sk-env'' else None) =
     (Inr \<lparr>api_key = ''sk-env'', client = \<lparr>client_api_key = ''sk-env''\<rparr>\<rparr>, []) \<and>
   ClaudeAgent_init (Some '''') (\<lambda>n. Some ''sk-env'') =
     (Inr \<lparr>api_key = ''sk-env'', client = \<lparr>client_api_key = ''sk-env''\<rparr>\<rparr>, []) \<and>
   ClaudeAgent_init None (\<lambda>n. None) = (Inl (ValueError missing_key_message), []) \<and>
   ClaudeAgent_init (Some '''') (\<lambda>n. Some '''') = (Inl (ValueError missing_key_message), [])"
  using ClaudeAgent_init_credential [of "''sk-arg''" "\<lambda>n. Some ''sk-env''" None]
    ClaudeAgent_init_credential
      [of "''sk-env''" "\<lambda>n. if n = ''ANTHROPIC_API_KEY'' then Some ''sk-env'' else None" None]
    ClaudeAgent_init_credential [of "''sk-env''" "\<lambda>n. Some ''sk-env''" "Some ''''"]
    ClaudeAgent_init_credential [of "''k''" "\<lambda>n. None" None]
    ClaudeAgent_init_credential [of "''k''" "\<lambda>n. Some ''''" "Some ''''"]
  by simp

text \<open>
  C9. Whatever the question, the override mapping and the behaviour of the remote call,
  the wrapper object after \<open>ask\<close> is the wrapper object before it: \<open>api_key\<close> and
  \<open>client\<close> keep their values. Nothing else is carried from one call to the next: a call
  made after another one behaves as the same call made first.
\<close>

theorem ask_preserves_agent:
  "agent_after (ask env create self question query_params) = self \<and>
   api_key (agent_after (ask env create self question query_params)) = api_key self \<and>
   client (agent_after (ask env create self question query_params)) = client self \<and>
   ask env' create' (agent_after (ask env create self question query_params)) question' query_params' =
     ask env' create' self question' query_params'"
proof -
  have "agent_after (ask env create self question query_params) = self"
    by (simp add: ask_def split: sum.splits prod.splits)
  then show ?thesis by simp
qed

theorem ask_preserves_agent_witness:
  "agent_after (ask mock_env mock_failure mock_agent ''x'' (Some [(''copy'', PInt 1)])) = mock_agent \<and>
   agent_after (ask mock_env (mock_reply ''Rome'') mock_agent ''x'' None) = mock_agent \<and>
   ask mock_env mock_failure
       (agent_after (ask mock_env (mock_reply ''Rome'') mock_agent ''x'' None)) ''y'' None =
     ask mock_env mock_failure mock_agent ''y'' None"
  using ask_preserves_agent [of mock_env mock_failure mock_agent "''x''" "Some [(''copy'', PInt 1)]"]
    ask_preserves_agent [of mock_env "mock_reply ''Rome''" mock_agent "''x''" None]
    ask_preserves_agent [of mock_env "mock_reply ''Rome''" mock_agent "''x''" None
      mock_env mock_failure "''y''" None]
  by simp

text \<open>
  C1. For every question and every exception \<open>e\<close> raised by the remote call, \<open>ask\<close>
  returns the response whose answer is "Error: " followed by \<open>str(e)\<close> and whose
  raw_response is the dict \<open>{"error": str(e)}\<close>; nothing is raised. First for a call
  without overrides, where the request is the default one; then for any override mapping,
  whenever a request was issued and the remote call raised on it.
\<close>

theorem ask_remote_failure:
  "(create (client self) (default_request question) = Inl e \<longrightarrow>
      ask env create self question None =
        \<lparr>result = Inr \<lparr>answer = ''Error: '' @ str_exc e,
                       raw_response = Some [(''error'', PStr (str_exc e))]\<rparr>,
         agent_after = self, calls = [default_request question]\<rparr>) \<and>
   (calls (ask env create self question query_params) = [req] \<and>
    create (client self) req = Inl e \<longrightarrow>
      result (ask env create self question query_params) =
        Inr \<lparr>answer = ''Error: '' @ str_exc e,
             raw_response = Some [(''error'', PStr (str_exc e))]\<rparr>)"
proof (intro conjI impI)
  assume "create (client self) (default_request question) = Inl e"
  then show "ask env create self question None =
        \<lparr>result = Inr \<lparr>answer = ''Error: '' @ str_exc e,
                       raw_response = Some [(''error'', PStr (str_exc e))]\<rparr>,
         agent_after = self, calls = [default_request question]\<rparr>"
    by (simp add: ask_def initial_query_eq try_body_initial error_response_def
        AgentResponse_new_def)
next
  assume "calls (ask env create self question query_params) = [req] \<and>
    create (client self) req = Inl e"
  then show "result (ask env create self question query_params) =
        Inr \<lparr>answer = ''Error: '' @ str_exc e,
             raw_response = Some [(''error'', PStr (str_exc e))]\<rparr>"
    by (auto simp: ask_def try_body_def Let_def error_response_def AgentResponse_new_def
        split: sum.splits prod.splits option.splits if_splits)
qed

theorem ask_remote_failure_witness:
  "ask mock_env mock_failure mock_agent ''What is the capital of Italy?'' None =
     \<lparr>result = Inr \<lparr>answer = ''Error: Connection error.'',
                    raw_response = Some [(''error'', PStr ''Connection error.'')]\<rparr>,
      agent_after = mock_agent,
      calls = [default_request ''What is the capital of Italy?'']\<rparr> \<and>
   result (ask mock_env mock_failure mock_agent ''x'' (Some [(''model'', PStr ''m'')])) =
     Inr \<lparr>answer = ''Error: Connection error.'',
          raw_response = Some [(''error'', PStr ''Connection error.'')]\<rparr>"
proof -
  let ?e = "RemoteError ''APIConnectionError'' ''Connection error.''"
  let ?req = "\<lparr>req_model = PStr ''m'', req_max_tokens = PInt default_max_tokens,
       req_temperature = PFloat default_temperature,
       req_messages = [wire_dict \<lparr>role = ''user'', content = ''x''\<rparr>]\<rparr>"
  have f: "mock_failure c r = Inl ?e" for c r
    by (simp add: mock_failure_def)
  have c: "calls (ask mock_env mock_failure mock_agent ''x'' (Some [(''model'', PStr ''m'')])) = [?req]"
    by (simp add: ask_Some hasattr_query_def field_names_def setattr_query_def try_body_def
        wire_messages_def Let_def f)
  from ask_remote_failure
    [of mock_failure mock_agent "''What is the capital of Italy?''" ?e mock_env] f
  have a: "ask mock_env mock_failure mock_agent ''What is the capital of Italy?'' None =
     \<lparr>result = Inr \<lparr>answer = ''Error: Connection error.'',
                    raw_response = Some [(''error'', PStr ''Connection error.'')]\<rparr>,
      agent_after = mock_agent,
      calls = [default_request ''What is the capital of Italy?'']\<rparr>"
    by simp
  from ask_remote_failure
    [of mock_failure mock_agent "''x''" ?e mock_env "Some [(''model'', PStr ''m'')]" ?req] c f
  have b: "result (ask mock_env mock_failure mock_agent ''x'' (Some [(''model'', PStr ''m'')])) =
     Inr \<lparr>answer = ''Error: Connection error.'',
          raw_response = Some [(''error'', PStr ''Connection error.'')]\<rparr>"
    by simp
  from a b show ?thesis by (rule conjI)
qed

text \<open>
  C7. For every question and every reply of the remote call whose content starts with a
  text segment, \<open>ask\<close> returns the response whose answer is the text of that first
  segment and whose raw_response is the serialized reply: first for a call without
  overrides, then for any override mapping whenever a request was issued and answered.
  The mocked reply with content \<open>[{"text": "Rome"}]\<close> gives the answer "Rome".
\<close>

theorem ask_success:
  "(create (client self) (default_request question) = Inr r \<and>
    reply_content r = TextBlock t # rest \<longrightarrow>
      ask env create self question None =
        \<lparr>result = Inr \<lparr>answer = t, raw_response = Some (reply_dump r)\<rparr>,
         agent_after = self, calls = [default_request question]\<rparr>) \<and>
   (calls (ask env create self question query_params) = [req] \<and>
    create (client self) req = Inr r \<and> reply_content r = TextBlock t # rest \<longrightarrow>
      result (ask env create self question query_params) =
        Inr \<lparr>answer = t, raw_response = Some (reply_dump r)\<rparr>)"
proof (intro conjI impI)
  assume "create (client self) (default_request question) = Inr r \<and>
    reply_content r = TextBlock t # rest"
  then show "ask env create self question None =
        \<lparr>result = Inr \<lparr>answer = t, raw_response = Some (reply_dump r)\<rparr>,
         agent_after = self, calls = [default_request question]\<rparr>"
    by (simp add: ask_def initial_query_eq try_body_initial first_text_def
        AgentResponse_new_def)
next
  assume "calls (ask env create self question query_params) = [req] \<and>
    create (client self) req = Inr r \<and> reply_content r = TextBlock t # rest"
  then show "result (ask env create self question query_params) =
        Inr \<lparr>answer = t, raw_response = Some (reply_dump r)\<rparr>"
    by (auto simp: ask_def try_body_def Let_def first_text_def AgentResponse_new_def
        split: sum.splits prod.splits option.splits if_splits)
qed

theorem ask_success_witness:
  "ask mock_env (mock_reply ''Rome'') mock_agent ''What is the capital of Italy?'' None =
     \<lparr>result = Inr \<lparr>answer = ''Rome'',
                    raw_response = Some [(''content'', PList [PDict [(''text'', PStr ''Rome'')]])]\<rparr>,
      agent_after = mock_agent,
      calls = [default_request ''What is the capital of Italy?'']\<rparr> \<and>
   result (ask mock_env (mock_reply ''Rome'') mock_agent ''x'' (Some [(''model'', PStr ''m'')])) =
     Inr \<lparr>answer = ''Rome'',
          raw_response = Some [(''content'', PList [PDict [(''text'', PStr ''Rome'')]])]\<rparr>"
proof -
  let ?r = "\<lparr>reply_content = [TextBlock ''Rome''],
          reply_dump = [(''content'', PList [PDict [(''text'', PStr ''Rome'')]])]\<rparr>"
  let ?req = "\<lparr>req_model = PStr ''m'', req_max_tokens = PInt default_max_tokens,
       req_temperature = PFloat default_temperature,
       req_messages = [wire_dict \<lparr>role = ''user'', content = ''x''\<rparr>]\<rparr>"
  have f: "mock_reply ''Rome'' c r = Inr ?r" for c r
    by (simp add: mock_reply_def)
  have c: "calls (ask mock_env (mock_reply ''Rome'') mock_agent ''x'' (Some [(''model'', PStr ''m'')])) =
      [?req]"
    by (simp add: ask_Some hasattr_query_def field_names_def setattr_query_def try_body_def
        wire_messages_def Let_def f first_text_def AgentResponse_new_def)
  from ask_success
    [of "mock_reply ''Rome''" mock_agent "''What is the capital of Italy?''" ?r "''Rome''" "[]"
        mock_env] f
  have a: "ask mock_env (mock_reply ''Rome'') mock_agent ''What is the capital of Italy?'' None =
     \<lparr>result = Inr \<lparr>answer = ''Rome'',
                    raw_response = Some [(''content'', PList [PDict [(''text'', PStr ''Rome'')]])]\<rparr>,
      agent_after = mock_agent,
      calls = [default_request ''What is the capital of Italy?'']\<rparr>"
    by simp
  from ask_success
    [of "mock_reply ''Rome''" mock_agent "''x''" ?r "''Rome''" "[]" mock_env
        "Some [(''model'', PStr ''m'')]" ?req] c f
  have b: "result (ask mock_env (mock_reply ''Rome'') mock_agent ''x'' (Some [(''model'', PStr ''m'')])) =
     Inr \<lparr>answer = ''Rome'',
          raw_response = Some [(''content'', PList [PDict [(''text'', PStr ''Rome'')]])]\<rparr>"
    by simp
  from a b show ?thesis by (rule conjI)
qed

text \<open>
  C3 (the code at the failing input). Constructing an \<open>AgentQuery\<close> with temperature 2.0
  fails with a ValidationError, but \<open>ask\<close> with the override \<open>{"temperature": 2.0}\<close>
  raises nothing: it issues a request whose temperature is 2.0 and returns the answer.
\<close>

theorem ask_override_not_revalidated:
  "AgentQuery_new (Some [\<lparr>role = ''user'', content = ''x''\<rparr>]) None None (Some 2) =
     Inl (ValidationError ''AgentQuery'' [(''temperature'', NotLessEqual)]) \<and>
   ask mock_env (mock_reply ''Rome'') mock_agent ''x'' (Some [(''temperature'', PFloat 2)]) =
     \<lparr>result = Inr \<lparr>answer = ''Rome'',
                    raw_response = Some [(''content'', PList [PDict [(''text'', PStr ''Rome'')]])]\<rparr>,
      agent_after = mock_agent,
      calls = [\<lparr>req_model = PStr default_model, req_max_tokens = PInt default_max_tokens,
                req_temperature = PFloat 2,
                req_messages = [wire_dict \<lparr>role = ''user'', content = ''x''\<rparr>]\<rparr>]\<rparr>"
  by (simp add: AgentQuery_new_def validate_temperature_def ask_def initial_query_eq
      hasattr_query_def field_names_def setattr_query_def try_body_def wire_messages_def
      Let_def mock_reply_def first_text_def AgentResponse_new_def)

text \<open>
  C8 (as stated, refuted). The claim is that \<open>ask\<close> issues exactly one remote call for
  every override mapping. With the override \<open>{"messages": 5}\<close> the comprehension over
  the message list raises inside the \<open>try\<close> block before the call: no request is issued
  and the error response is returned.
\<close>

theorem ask_one_call_counterexample:
  "ask mock_env (mock_reply ''Rome'') mock_agent ''x'' (Some [(''messages'', PInt 5)]) =
     \<lparr>result = Inr \<lparr>answer = ''Error: '' @ quoted ''int'' @ '' object is not iterable'',
                    raw_response =
                      Some [(''error'', PStr (quoted ''int'' @ '' object is not iterable''))]\<rparr>,
      agent_after = mock_agent,
      calls = []\<rparr>"
  by (simp add: ask_def initial_query_eq
      hasattr_query_def field_names_def setattr_query_def try_body_def wire_messages_def
      not_iterable_def error_response_def AgentResponse_new_def)


text \<open>
  The guard of the override loop is \<open>hasattr\<close>: a key that names another attribute of
  the query object passes it. In the test environment, where the object has a method
  \<open>copy\<close> that cannot be assigned, the exception of \<open>setattr\<close> leaves \<open>ask\<close>, since
  the loop is outside the \<open>try\<close> block.
\<close>

lemma ask_unassignable_attribute:
  "ask mock_env (mock_reply ''Rome'') mock_agent ''x'' (Some [(''copy'', PInt 1)]) =
     \<lparr>result = Inl (ValueError (dquoted ''AgentQuery'' @ '' object has no field '' @ dquoted ''copy'')),
      agent_after = mock_agent, calls = []\<rparr>"
  by (simp add: ask_Some hasattr_query_def field_names_def setattr_query_def mock_env_def)

text \<open>
  C8 (amended). For every question and every override mapping whose entries are well
  formed (each key is a declared field of the query bound to a value its declaration
  accepts, or a name the query object does not have), \<open>ask\<close> issues exactly one remote
  call and raises nothing. The request carries the model, max_tokens and temperature of
  the query, each replaced by the override's value when its key is present and the
  default otherwise, and the message list converted element by element, in order, to
  \<open>{role, content}\<close>. Entries whose key the query object does not have are ignored: the
  call behaves as the call without them, and as the call with no override when no other
  entry is present.
\<close>

theorem ask_well_formed_overrides:
  assumes "distinct (map fst ps)" and "list_all (well_formed_entry env) ps"
  shows
    "(\<exists>ms. overridden ps ''messages'' (PList [PMessage \<lparr>role = ''user'', content = question\<rparr>]) =
            PList (map PMessage ms) \<and>
          calls (ask env create self question (Some ps)) =
            [\<lparr>req_model = overridden ps ''model'' (PStr default_model),
              req_max_tokens = overridden ps ''max_tokens'' (PInt default_max_tokens),
              req_temperature = overridden ps ''temperature'' (PFloat default_temperature),
              req_messages = map wire_dict ms\<rparr>]) \<and>
     (\<exists>resp. result (ask env create self question (Some ps)) = Inr resp) \<and>
     ask env create self question (Some ps) =
       ask env create self question (Some (filter (\<lambda>kv. hasattr_query env (fst kv)) ps)) \<and>
     (list_all (\<lambda>kv. \<not> hasattr_query env (fst kv)) ps \<longrightarrow>
        ask env create self question (Some ps) = ask env create self question None)"
proof -
  let ?init = "\<lparr>messages = PList [PMessage \<lparr>role = ''user'', content = question\<rparr>],
         model = PStr default_model, max_tokens = PInt default_max_tokens,
         temperature = PFloat default_temperature\<rparr>"
  let ?m = "overridden ps ''messages'' (PList [PMessage \<lparr>role = ''user'', content = question\<rparr>])"
  let ?final = "\<lparr>messages = ?m,
         model = overridden ps ''model'' (PStr default_model),
         max_tokens = overridden ps ''max_tokens'' (PInt default_max_tokens),
         temperature = overridden ps ''temperature'' (PFloat default_temperature)\<rparr>"
  from assms(2) have fk: "list_all (field_key env) ps" by (rule well_formed_field_key)
  from apply_overrides_fields [OF assms(1) fk, of ?init]
  have ov: "apply_overrides env ?init ps = Inr ?final" by simp
  obtain ms where ms: "?m = PList (map PMessage ms)"
  proof (cases "map_of ps ''messages''")
    case None
    then have "?m = PList (map PMessage [\<lparr>role = ''user'', content = question\<rparr>])"
      by (simp add: overridden_def)
    then show ?thesis by (rule that)
  next
    case (Some v)
    from well_formed_messages [OF assms(2) Some] obtain ms' where "v = PList (map PMessage ms')"
      by auto
    with Some have "?m = PList (map PMessage ms')" by (simp add: overridden_def)
    then show ?thesis by (rule that)
  qed
  then have "wire_messages (messages ?final) = Inr (map wire_dict ms)"
    by (simp add: wire_messages_def wire_list_messages)
  from try_body_calls [OF this, of create "client self"] ask_after_overrides(1) [OF ov, of create self]
  have c: "calls (ask env create self question (Some ps)) =
          [\<lparr>req_model = overridden ps ''model'' (PStr default_model),
            req_max_tokens = overridden ps ''max_tokens'' (PInt default_max_tokens),
            req_temperature = overridden ps ''temperature'' (PFloat default_temperature),
            req_messages = map wire_dict ms\<rparr>]"
    by simp
  have 1: "\<exists>ms. ?m = PList (map PMessage ms) \<and>
          calls (ask env create self question (Some ps)) =
            [\<lparr>req_model = overridden ps ''model'' (PStr default_model),
              req_max_tokens = overridden ps ''max_tokens'' (PInt default_max_tokens),
              req_temperature = overridden ps ''temperature'' (PFloat default_temperature),
              req_messages = map wire_dict ms\<rparr>]"
    by (rule exI [of _ ms]) (rule conjI [OF ms c])
  have 2: "\<exists>resp. result (ask env create self question (Some ps)) = Inr resp"
    by (rule ask_after_overrides(2) [OF ov])
  have 3: "ask env create self question (Some ps) =
       ask env create self question (Some (filter (\<lambda>kv. hasattr_query env (fst kv)) ps))"
    unfolding ask_Some by (subst apply_overrides_filter) (rule refl)
  have 4: "ask env create self question (Some ps) = ask env create self question None"
    if "list_all (\<lambda>kv. \<not> hasattr_query env (fst kv)) ps"
  proof -
    from that have "filter (\<lambda>kv. hasattr_query env (fst kv)) ps = []"
      by (simp add: list_all_iff filter_empty_conv)
    with 3 show ?thesis by (simp add: ask_None)
  qed
  from 4 have 5: "list_all (\<lambda>kv. \<not> hasattr_query env (fst kv)) ps \<longrightarrow>
        ask env create self question (Some ps) = ask env create self question None"
    by (rule impI)
  show ?thesis by (intro conjI 1 2 3 5)
qed

theorem ask_well_formed_overrides_witness:
  "calls (ask mock_env (mock_reply ''Rome'') mock_agent ''x''
        (Some [(''temperature'', PFloat (2 / 10)), (''bogus_field'', PInt 1)])) =
     [\<lparr>req_model = PStr default_model, req_max_tokens = PInt default_max_tokens,
       req_temperature = PFloat (2 / 10),
       req_messages = [wire_dict \<lparr>role = ''user'', content = ''x''\<rparr>]\<rparr>] \<and>
   ask mock_env (mock_reply ''Rome'') mock_agent ''x'' (Some [(''bogus_field'', PInt 1)]) =
     ask mock_env (mock_reply ''Rome'') mock_agent ''x'' None"
proof -
  have d1: "distinct (map fst [(''temperature'', PFloat (2 / 10)), (''bogus_field'', PInt 1)])"
    by simp
  have w1: "list_all (well_formed_entry mock_env)
      [(''temperature'', PFloat (2 / 10)), (''bogus_field'', PInt 1)]"
    by (simp add: well_formed_entry_def hasattr_query_def field_names_def mock_env_def
        accepted_value_def)
  have d2: "distinct (map fst [(''bogus_field'', PInt 1)])"
    by simp
  have w2: "list_all (well_formed_entry mock_env) [(''bogus_field'', PInt 1)]"
    by (simp add: well_formed_entry_def hasattr_query_def field_names_def mock_env_def)
  have n2: "list_all (\<lambda>kv. \<not> hasattr_query mock_env (fst kv)) [(''bogus_field'', PInt 1)]"
    by (simp add: hasattr_query_def field_names_def mock_env_def)
  from ask_well_formed_overrides [OF d1 w1, of "''x''" "mock_reply ''Rome''" mock_agent]
  obtain ms where
    m: "overridden [(''temperature'', PFloat (2 / 10)), (''bogus_field'', PInt 1)] ''messages''
          (PList [PMessage \<lparr>role = ''user'', content = ''x''\<rparr>]) = PList (map PMessage ms)"
    and c: "calls (ask mock_env (mock_reply ''Rome'') mock_agent ''x''
        (Some [(''temperature'', PFloat (2 / 10)), (''bogus_field'', PInt 1)])) =
      [\<lparr>req_model =
          overridden [(''temperature'', PFloat (2 / 10)), (''bogus_field'', PInt 1)] ''model''
            (PStr default_model),
        req_max_tokens =
          overridden [(''temperature'', PFloat (2 / 10)), (''bogus_field'', PInt 1)] ''max_tokens''
            (PInt default_max_tokens),
        req_temperature =
          overridden [(''temperature'', PFloat (2 / 10)), (''bogus_field'', PInt 1)] ''temperature''
            (PFloat default_temperature),
        req_messages = map wire_dict ms\<rparr>]"
    by blast
  from m have "map PMessage ms = [PMessage \<lparr>role = ''user'', content = ''x''\<rparr>]"
    by (simp add: overridden_def)
  then have "ms = [\<lparr>role = ''user'', content = ''x''\<rparr>]"
    by (cases ms) auto
  with c have a: "calls (ask mock_env (mock_reply ''Rome'') mock_agent ''x''
        (Some [(''temperature'', PFloat (2 / 10)), (''bogus_field'', PInt 1)])) =
     [\<lparr>req_model = PStr default_model, req_max_tokens = PInt default_max_tokens,
       req_temperature = PFloat (2 / 10),
       req_messages = [wire_dict \<lparr>role = ''user'', content = ''x''\<rparr>]\<rparr>]"
    by (simp add: overridden_def)
  from ask_well_formed_overrides [OF d2 w2, of "''x''" "mock_reply ''Rome''" mock_agent] n2
  have b: "ask mock_env (mock_reply ''Rome'') mock_agent ''x'' (Some [(''bogus_field'', PInt 1)]) =
     ask mock_env (mock_reply ''Rome'') mock_agent ''x'' None"
    by blast
  from a b show ?thesis by simp
qed

text \<open>
  The comprehension on the kinds of value the field can hold: a tuple of messages converts
  like a list, an empty string gives the empty list, and a string, a dict, a single
  message, a list with a non-message element and \<open>None\<close> raise.
\<close>

lemma wire_messages_examples:
  "wire_messages (PTuple [PMessage \<lparr>role = ''user'', content = ''a''\<rparr>]) =
     Inr [[(''role'', PStr ''user''), (''content'', PStr ''a'')]]"
  "wire_messages (PStr '''') = Inr []"
  "wire_messages (PStr ''ab'') =
     Inl (AttributeError (quoted ''str'' @ '' object has no attribute '' @ quoted ''role''))"
  "wire_messages (PDict [(''role'', PStr ''user'')]) =
     Inl (AttributeError (quoted ''str'' @ '' object has no attribute '' @ quoted ''role''))"
  "wire_messages (PMessage \<lparr>role = ''user'', content = ''a''\<rparr>) =
     Inl (AttributeError (quoted ''tuple'' @ '' object has no attribute '' @ quoted ''role''))"
  "wire_messages (PList [PMessage \<lparr>role = ''user'', content = ''a''\<rparr>, PInt 1]) =
     Inl (AttributeError (quoted ''int'' @ '' object has no attribute '' @ quoted ''role''))"
  "wire_messages PNone = Inl (TypeError (quoted ''NoneType'' @ '' object is not iterable''))"
  by (simp_all add: wire_messages_def wire_dict_def no_attribute_def not_iterable_def)





end
